theory Spec2Isabelle
  imports Main "HOL-Library.Word"
begin

section \<open>config\_center: functional options\<close>

text \<open>
  \<^verbatim>\<open>type Options struct { Group string; Timeout time.Duration }\<close>.
  A \<^verbatim>\<open>time.Duration\<close> is an \<^verbatim>\<open>int64\<close>.
\<close>

record Options =
  Group :: string
  Timeout :: "64 word"

text \<open>
  An \<^verbatim>\<open>Option\<close> is a function on a pointer to \<^verbatim>\<open>Options\<close>: it mutates the
  structure it is given; the model returns the updated structure.
\<close>

type_synonym Option = "Options \<Rightarrow> Options"

definition WithGroup :: "string \<Rightarrow> Option" where
  "WithGroup grp = (\<lambda>opt. opt\<lparr>Group := grp\<rparr>)"

definition WithTimeout :: "64 word \<Rightarrow> Option" where
  "WithTimeout time = (\<lambda>opt. opt\<lparr>Timeout := time\<rparr>)"

section \<open>xds/client: update validation\<close>

text \<open>
  Errors as values. \<open>Errorf fmt args\<close> is the value built by
  \<^verbatim>\<open>fmt.Errorf(fmt, args...)\<close>: the format string and the arguments substituted into it.
  \<open>ClientClosed\<close> and \<open>AuthorityNotInBootstrap\<close> are the lifecycle-misuse and the
  configuration error of authority resolution; \<open>AuthorityError\<close> is an error returned by
  an authority.
\<close>

datatype error =
    Errorf string "string list"
  | ClientClosed
  | AuthorityNotInBootstrap string
  | AuthorityError string

text \<open>
  The part of \<^verbatim>\<open>resource.SecurityConfig\<close> and \<^verbatim>\<open>resource.FilterChain\<close> that the
  validators read. A pointer that may be \<^verbatim>\<open>nil\<close> is an \<open>option\<close>.
\<close>

record SecurityConfig =
  RootInstanceName :: string
  IdentityInstanceName :: string

record FilterChain =
  fc_SecurityCfg :: "SecurityConfig option"

text \<open>
  \<^verbatim>\<open>bootstrap.Config\<close>: the default management server, the per-authority server table and
  the certificate-provider table. Servers are identified by \<^verbatim>\<open>ServerConfig.String()\<close>.
  Reading a \<^verbatim>\<open>nil\<close> Go map behaves as reading an empty one, so the tables are maps.
\<close>

datatype BuildableConfig = BuildableConfig string

record Config =
  XDSServer :: string
  Authorities :: "string \<rightharpoonup> string"
  CertProviderConfigs :: "string \<rightharpoonup> BuildableConfig"

definition identity_missing_fmt :: string where
  "identity_missing_fmt =
     ''identitiy certificate provider instance name %q missing in bootstrap configuration''"

definition root_missing_fmt :: string where
  "root_missing_fmt =
     ''root certificate provider instance name %q missing in bootstrap configuration''"

text \<open>
  \<^verbatim>\<open>func (c *clientImpl) securityConfigUpdateValidator(sc *resource.SecurityConfig) error\<close>.
  Only \<^verbatim>\<open>c.config\<close> is read, so the model takes the bootstrap configuration.
  \<open>None\<close> is the \<^verbatim>\<open>nil\<close> error.
\<close>

definition securityConfigUpdateValidator :: "Config \<Rightarrow> SecurityConfig option \<Rightarrow> error option" where
  "securityConfigUpdateValidator config sc =
     (case sc of
        None \<Rightarrow> None
      | Some s \<Rightarrow>
          if IdentityInstanceName s \<noteq> [] \<and>
             CertProviderConfigs config (IdentityInstanceName s) = None
          then Some (Errorf identity_missing_fmt [IdentityInstanceName s])
          else if RootInstanceName s \<noteq> [] \<and>
                  CertProviderConfigs config (RootInstanceName s) = None
          then Some (Errorf root_missing_fmt [RootInstanceName s])
          else None)"

text \<open>
  The same function, instrumented: it also returns the lookups it performs in the
  certificate-provider table, in order. A lookup is recorded where the source evaluates
  \<^verbatim>\<open>c.config.CertProviderConfigs[name]\<close>.
\<close>

datatype provider_check = IdentityCheck string | RootCheck string

definition securityConfigUpdateValidator_trace ::
  "Config \<Rightarrow> SecurityConfig option \<Rightarrow> provider_check list \<times> error option" where
  "securityConfigUpdateValidator_trace config sc =
     (case sc of
        None \<Rightarrow> ([], None)
      | Some s \<Rightarrow>
          let t1 = (if IdentityInstanceName s \<noteq> [] then [IdentityCheck (IdentityInstanceName s)] else [])
          in if IdentityInstanceName s \<noteq> [] \<and>
                CertProviderConfigs config (IdentityInstanceName s) = None
             then (t1, Some (Errorf identity_missing_fmt [IdentityInstanceName s]))
             else
               let t2 = (if RootInstanceName s \<noteq> [] then t1 @ [RootCheck (RootInstanceName s)] else t1)
               in if RootInstanceName s \<noteq> [] \<and>
                     CertProviderConfigs config (RootInstanceName s) = None
                  then (t2, Some (Errorf root_missing_fmt [RootInstanceName s]))
                  else (t2, None))"

text \<open>\<^verbatim>\<open>func (c *clientImpl) filterChainUpdateValidator(fc *resource.FilterChain) error\<close>\<close>

definition filterChainUpdateValidator :: "Config \<Rightarrow> FilterChain option \<Rightarrow> error option" where
  "filterChainUpdateValidator config fc =
     (case fc of
        None \<Rightarrow> None
      | Some f \<Rightarrow> securityConfigUpdateValidator config (fc_SecurityCfg f))"

text \<open>
  The updates \<^verbatim>\<open>updateValidator\<close> switches on. \<open>'fcs\<close> is the filter-chain set
  (\<^verbatim>\<open>*resource.FilterChainManager\<close>); \<open>OtherUpdate\<close> carries a value of any other
  dynamic type.
\<close>

record 'fcs InboundListenerConfig =
  FilterChains :: "'fcs option"

datatype ('fcs, 'o) update =
    ListenerUpdate "'fcs InboundListenerConfig option"
  | ClusterUpdate "SecurityConfig option"
  | OtherUpdate 'o

text \<open>
  \<^verbatim>\<open>func (c *clientImpl) updateValidator(u any) error\<close>.
  \<^verbatim>\<open>FilterChainManager.Validate\<close> belongs to the resource package; it is the parameter
  \<open>validate\<close>, applied to the filter-chain set and the per-chain validator.
\<close>

definition updateValidator ::
  "('fcs \<Rightarrow> (FilterChain option \<Rightarrow> error option) \<Rightarrow> error option) \<Rightarrow>
   Config \<Rightarrow> ('fcs, 'o) update \<Rightarrow> error option" where
  "updateValidator validate config u =
     (case u of
        ListenerUpdate cfg \<Rightarrow>
          (case cfg of
             None \<Rightarrow> None
           | Some l \<Rightarrow>
               (case FilterChains l of
                  None \<Rightarrow> None
                | Some fcs \<Rightarrow> validate fcs (filterChainUpdateValidator config)))
      | ClusterUpdate sc \<Rightarrow> securityConfigUpdateValidator config sc
      | OtherUpdate x \<Rightarrow> None)"

text \<open>
  Modelled from the spec: \<^verbatim>\<open>FilterChainManager.Validate\<close>, which is not part of the
  client source. The spec says a listener update that carries a filter-chain set has every
  chain's security config validated; the set is taken as the list of its chains and the
  first error is returned.
\<close>

fun Validate :: "FilterChain option list \<Rightarrow> (FilterChain option \<Rightarrow> error option) \<Rightarrow> error option" where
  "Validate [] f = None"
| "Validate (fc # fcs) f = (case f fc of Some e \<Rightarrow> Some e | None \<Rightarrow> Validate fcs f)"

section \<open>xds/client: client state, Close and SetMetadata\<close>

text \<open>
  An \<^verbatim>\<open>*authority\<close> is a reference to an authority object. What the client does to an
  authority or to its logger is a call on a collaborator, recorded in order:
  \<^verbatim>\<open>a.close()\<close>, \<^verbatim>\<open>a.SetMetadata(m)\<close>, \<^verbatim>\<open>a.watchEndpoints(name, cb)\<close> and
  \<^verbatim>\<open>c.logger.Infof(msg)\<close>. \<open>'m\<close> is the metadata value (\<^verbatim>\<open>*_struct.Struct\<close>).
\<close>

type_synonym authority = nat

datatype 'm call =
    AuthorityClose authority
  | AuthoritySetMetadata authority 'm
  | AuthorityWatchEndpoints authority string
  | LoggerInfof string

text \<open>
  Modelled from the spec: the timeout cache \<^verbatim>\<open>cache.TimeoutCache\<close>, which is not part of
  the client source. An entry holds an authority and the expiry callback registered with
  it; the spec says the callback the client registers on release permanently closes the
  authority. Timers are not modelled: an entry that has expired is no longer in the cache.
\<close>

datatype callback = CloseAuthority authority

record cacheEntry =
  item :: authority
  callback :: callback

type_synonym TimeoutCache = "(string \<times> cacheEntry) list"

fun run_callback :: "callback \<Rightarrow> 'm call list \<Rightarrow> 'm call list" where
  "run_callback (CloseAuthority a) calls = calls @ [AuthorityClose a]"

text \<open>
  Modelled from the spec: \<^verbatim>\<open>TimeoutCache.Clear(runCallback)\<close>. \<^verbatim>\<open>Clear(true)\<close> fires
  every pending expiry callback synchronously before returning; \<^verbatim>\<open>Clear(false)\<close> discards
  the entries without invoking callbacks. Either way the cache is empty afterwards.
\<close>

definition TimeoutCache_Clear ::
  "bool \<Rightarrow> TimeoutCache \<Rightarrow> 'm call list \<Rightarrow> TimeoutCache \<times> 'm call list" where
  "TimeoutCache_Clear runCallback cache calls =
     ([], if runCallback then fold (\<lambda>(key, e). run_callback (callback e)) cache calls else calls)"

text \<open>
  Modelled from the spec: \<^verbatim>\<open>TimeoutCache.Get(key)\<close>. A hit cancels the pending deletion
  and returns the value, leaving the key absent from the cache.
\<close>

definition TimeoutCache_Get :: "TimeoutCache \<Rightarrow> string \<Rightarrow> (cacheEntry \<times> TimeoutCache) option" where
  "TimeoutCache_Get cache key =
     (case map_of cache key of
        None \<Rightarrow> None
      | Some e \<Rightarrow> Some (e, filter (\<lambda>(k, e'). k \<noteq> key) cache))"

text \<open>
  \<^verbatim>\<open>clientImpl\<close>. \<open>c_done\<close> is the one-shot event \<^verbatim>\<open>done\<close> (\<^verbatim>\<open>HasFired\<close> reads it,
  \<^verbatim>\<open>Fire\<close> sets it). \<open>c_authorities\<close> is the Go map from server identity to authority,
  as an association list: the order of the list is the order in which \<^verbatim>\<open>range\<close> visits
  the map, which Go leaves unspecified, and every theorem below holds for every order.
  \<open>c_calls\<close> is the record of the calls made on collaborators so far and \<open>c_allocated\<close>
  the number of authorities constructed so far (the next fresh reference); neither is a
  field of the Go structure. The constructor \<^verbatim>\<open>newWithConfig\<close> sets every pointer field, so
  no field is modelled as \<^verbatim>\<open>nil\<close>. The mutex is not modelled: the functions below are the
  sequential behaviour of one call.
\<close>

record 'm clientImpl =
  c_done :: bool
  c_config :: Config
  c_authorities :: "(string \<times> authority) list"
  c_idleAuthorities :: TimeoutCache
  c_calls :: "'m call list"
  c_allocated :: nat

definition authority_close :: "authority \<Rightarrow> 'm call list \<Rightarrow> 'm call list" where
  "authority_close a calls = calls @ [AuthorityClose a]"

text \<open>\<^verbatim>\<open>func (c *clientImpl) Close()\<close>\<close>

definition Close :: "'m clientImpl \<Rightarrow> 'm clientImpl" where
  "Close c =
     (if c_done c then c
      else
        let c1 = c\<lparr>c_done := True\<rparr>;
            c2 = c1\<lparr>c_calls := fold (\<lambda>(key, a). authority_close a) (c_authorities c1) (c_calls c1)\<rparr>;
            (cache, calls) = TimeoutCache_Clear True (c_idleAuthorities c2) (c_calls c2);
            c3 = c2\<lparr>c_idleAuthorities := cache, c_calls := calls\<rparr>
        in c3\<lparr>c_calls := c_calls c3 @ [LoggerInfof ''Shutdown'']\<rparr>)"

text \<open>
  The part of \<^verbatim>\<open>resource.Name\<close> that authority resolution reads, and
  \<^verbatim>\<open>resource.ParseName("")\<close>. Modelled from the spec: the empty resource name specifies
  no authority, so it targets the default server.
\<close>

record Name =
  Authority :: string
  ID :: string

definition ParseName_empty :: Name where
  "ParseName_empty = \<lparr>Authority = [], ID = []\<rparr>"

text \<open>
  Modelled from the spec: \<^verbatim>\<open>findAuthority\<close>, which is not part of the client source.
  The spec says: it checks the done flag and fails if the client is already closed; it
  resolves the server identity of the resource's target server (the default server if the
  resource specifies none) and fails with a configuration error if the name maps to a
  server identity absent from bootstrap's authority list; if the identity is present in
  the active registry it returns that authority; else if it is present in the idle cache
  it revives it into the active registry and returns it; else it constructs a new
  authority, inserts it into the active registry and returns it. The release function it
  also returns is discarded by \<^verbatim>\<open>SetMetadata\<close> and is not modelled.
\<close>

definition findAuthority :: "'m clientImpl \<Rightarrow> Name \<Rightarrow> (error + authority) \<times> 'm clientImpl" where
  "findAuthority c n =
     (if c_done c then (Inl ClientClosed, c)
      else
        case (if Authority n = [] then Some (XDSServer (c_config c))
              else Authorities (c_config c) (Authority n)) of
          None \<Rightarrow> (Inl (AuthorityNotInBootstrap (Authority n)), c)
        | Some server \<Rightarrow>
            (case map_of (c_authorities c) server of
               Some a \<Rightarrow> (Inr a, c)
             | None \<Rightarrow>
                 (case TimeoutCache_Get (c_idleAuthorities c) server of
                    Some (e, cache) \<Rightarrow>
                      (Inr (item e),
                       c\<lparr>c_authorities := (server, item e) # c_authorities c,
                         c_idleAuthorities := cache\<rparr>)
                  | None \<Rightarrow>
                      (Inr (c_allocated c),
                       c\<lparr>c_authorities := (server, c_allocated c) # c_authorities c,
                         c_allocated := Suc (c_allocated c)\<rparr>))))"

text \<open>
  \<^verbatim>\<open>func (c *clientImpl) SetMetadata(m *_struct.Struct) error\<close>.
  Whether the authority accepts the metadata is the authority's answer: the parameter
  \<open>a_SetMetadata\<close> gives the error \<^verbatim>\<open>a.SetMetadata(m)\<close> returns.
\<close>

definition SetMetadata ::
  "(authority \<Rightarrow> 'm \<Rightarrow> error option) \<Rightarrow> 'm clientImpl \<Rightarrow> 'm \<Rightarrow> error option \<times> 'm clientImpl" where
  "SetMetadata a_SetMetadata c m =
     (case findAuthority c ParseName_empty of
        (Inl err, c') \<Rightarrow> (Some err, c')
      | (Inr a, c') \<Rightarrow>
          let c'' = c'\<lparr>c_calls := c_calls c' @ [AuthoritySetMetadata a m]\<rparr>
          in (case a_SetMetadata a m of
                Some err \<Rightarrow> (Some err, c'')
              | None \<Rightarrow> (None, c''\<lparr>c_calls := c_calls c'' @ [AuthorityWatchEndpoints a []]\<rparr>)))"

section \<open>xds/balancer/orca: the load-report codec\<close>

text \<open>
  A Go \<^verbatim>\<open>string\<close> and a \<^verbatim>\<open>[]byte\<close> are both sequences of bytes, and the conversions
  \<^verbatim>\<open>string(b)\<close> and \<^verbatim>\<open>[]byte(s)\<close> copy the bytes; a \<^verbatim>\<open>nil\<close> slice is \<open>None\<close>.
\<close>

type_synonym bytes = string

definition mdKey :: string where
  "mdKey = ''X-Endpoint-Load-Metrics-Bin''"

text \<open>
  \<^verbatim>\<open>metadata.MD\<close> is \<^verbatim>\<open>map[string][]string\<close>; a \<^verbatim>\<open>nil\<close> map is \<open>None\<close>.
  The library keeps keys in lower case: \<^verbatim>\<open>metadata.Pairs\<close> stores each value under
  \<^verbatim>\<open>strings.ToLower(key)\<close>, appending to the values already there, and \<^verbatim>\<open>md.Get(k)\<close>
  returns \<^verbatim>\<open>md[strings.ToLower(k)]\<close>, which is empty for a missing key and for a
  \<^verbatim>\<open>nil\<close> map. \<open>ToLower\<close> is \<^verbatim>\<open>strings.ToLower\<close> on ASCII text.
\<close>

type_synonym MD = "string \<rightharpoonup> string list"

definition ToLower_char :: "char \<Rightarrow> char" where
  "ToLower_char ch =
     (let n = (of_char ch :: nat) in if 65 \<le> n \<and> n \<le> 90 then char_of (n + 32) else ch)"

definition ToLower :: "string \<Rightarrow> string" where
  "ToLower s = map ToLower_char s"

definition md_values :: "MD \<Rightarrow> string \<Rightarrow> string list" where
  "md_values md k = (case md k of None \<Rightarrow> [] | Some vs \<Rightarrow> vs)"

fun Pairs :: "(string \<times> string) list \<Rightarrow> MD \<Rightarrow> MD" where
  "Pairs [] md = md"
| "Pairs ((k, v) # kv) md = Pairs kv (md(ToLower k \<mapsto> md_values md (ToLower k) @ [v]))"

definition md_Get :: "MD option \<Rightarrow> string \<Rightarrow> string list" where
  "md_Get md k = (case md of None \<Rightarrow> [] | Some m \<Rightarrow> md_values m (ToLower k))"

text \<open>
  A line written by \<^verbatim>\<open>logger.Warnf(format, err)\<close>. The functions below return the lines
  they log next to their result.
\<close>

datatype 'e logline = Warnf string 'e

text \<open>
  \<^verbatim>\<open>func toBytes(r *orcapb.OrcaLoadReport) []byte\<close>.
  \<open>marshal\<close> is \<^verbatim>\<open>proto.Marshal\<close> on a message that is not \<^verbatim>\<open>nil\<close>: an error, or the
  encoding, which the library returns as a slice that is not \<^verbatim>\<open>nil\<close> (empty for an
  empty message).
\<close>

definition toBytes :: "('r \<Rightarrow> 'e + bytes) \<Rightarrow> 'r option \<Rightarrow> bytes option \<times> 'e logline list" where
  "toBytes marshal r =
     (case r of
        None \<Rightarrow> (None, [])
      | Some x \<Rightarrow>
          (case marshal x of
             Inl err \<Rightarrow> (None, [Warnf ''orca: failed to marshal load report: %v'' err])
           | Inr b \<Rightarrow> (Some b, [])))"

text \<open>\<^verbatim>\<open>func ToMetadata(r *orcapb.OrcaLoadReport) metadata.MD\<close>\<close>

definition ToMetadata :: "('r \<Rightarrow> 'e + bytes) \<Rightarrow> 'r option \<Rightarrow> MD option \<times> 'e logline list" where
  "ToMetadata marshal r =
     (case toBytes marshal r of
        (None, lg) \<Rightarrow> (None, lg)
      | (Some b, lg) \<Rightarrow> (Some (Pairs [(mdKey, b)] Map.empty), lg))"

text \<open>
  \<^verbatim>\<open>func fromBytes(b []byte) *orcapb.OrcaLoadReport\<close>.
  \<open>unmarshal\<close> is \<^verbatim>\<open>proto.Unmarshal\<close> into a new report: an error, or the decoded report.
\<close>

definition fromBytes :: "(bytes \<Rightarrow> 'e + 'r) \<Rightarrow> bytes \<Rightarrow> 'r option \<times> 'e logline list" where
  "fromBytes unmarshal b =
     (case unmarshal b of
        Inl err \<Rightarrow> (None, [Warnf ''orca: failed to unmarshal load report: %v'' err])
      | Inr ret \<Rightarrow> (Some ret, []))"

text \<open>\<^verbatim>\<open>func FromMetadata(md metadata.MD) *orcapb.OrcaLoadReport\<close>\<close>

definition FromMetadata :: "(bytes \<Rightarrow> 'e + 'r) \<Rightarrow> MD option \<Rightarrow> 'r option \<times> 'e logline list" where
  "FromMetadata unmarshal md =
     (case md_Get md mdKey of
        [] \<Rightarrow> (None, [])
      | v # vs \<Rightarrow> fromBytes unmarshal v)"

text \<open>
  A byte codec used to run the functions above on concrete inputs: a report is a list of
  bytes, the encoding fails on the empty report, and the decoding fails on input that
  does not start with the byte it expects.
\<close>

datatype codec_error = MarshalError | UnmarshalError

definition sample_marshal :: "string \<Rightarrow> codec_error + bytes" where
  "sample_marshal r = (if r = [] then Inl MarshalError else Inr (CHR ''R'' # r))"

definition sample_unmarshal :: "bytes \<Rightarrow> codec_error + string" where
  "sample_unmarshal b = (case b of [] \<Rightarrow> Inl UnmarshalError
     | ch # r \<Rightarrow> if ch = CHR ''R'' then Inr r else Inl UnmarshalError)"

definition sample_config :: Config where
  "sample_config =
     \<lparr>XDSServer = ''xds.example:443'', Authorities = Map.empty,
      CertProviderConfigs = [''default'' \<mapsto> BuildableConfig ''file_watcher'']\<rparr>"

definition sample_client :: "unit clientImpl" where
  "sample_client =
     \<lparr>c_done = False, c_config = sample_config,
      c_authorities = [(''xds.example:443'', 0), (''other.example:443'', 1)],
      c_idleAuthorities = [(''idle.example:443'', \<lparr>item = 2, callback = CloseAuthority 2\<rparr>)],
      c_calls = [], c_allocated = 3\<rparr>"


text \<open>
  A provider instance name is missing when it is set (not the empty string) and is not a
  key of the bootstrap certificate-provider table.
\<close>

definition provider_missing :: "Config \<Rightarrow> string \<Rightarrow> bool" where
  "provider_missing config name \<longleftrightarrow> name \<noteq> [] \<and> name \<notin> dom (CertProviderConfigs config)"

section \<open>Properties\<close>

subsection \<open>Auxiliary facts\<close>

lemma ToLower_mdKey: "ToLower mdKey = ''x-endpoint-load-metrics-bin''"
  by code_simp

lemma fold_authority_close:
  "fold (\<lambda>(key, a). authority_close a) xs calls = calls @ map (\<lambda>(key, a). AuthorityClose a) xs"
  by (induction xs arbitrary: calls) (auto simp: authority_close_def)

lemma fold_run_callback:
  "fold (\<lambda>(key, e). run_callback (callback e)) cache calls
     = calls @ map (\<lambda>(key, e). case callback e of CloseAuthority a \<Rightarrow> AuthorityClose a) cache"
  by (induction cache arbitrary: calls) (auto split: callback.splits)

lemma Close_not_done:
  "\<not> c_done c \<Longrightarrow>
     Close c = c\<lparr>c_done := True, c_idleAuthorities := [],
                 c_calls := c_calls c @ map (\<lambda>(key, a). AuthorityClose a) (c_authorities c)
                    @ map (\<lambda>(key, e). case callback e of CloseAuthority a \<Rightarrow> AuthorityClose a) (c_idleAuthorities c)
                    @ [LoggerInfof ''Shutdown'']\<rparr>"
  by (simp add: Close_def Let_def TimeoutCache_Clear_def fold_authority_close fold_run_callback)

lemma Close_done: "c_done c \<Longrightarrow> Close c = c"
  by (simp add: Close_def)

lemma c_done_Close: "c_done (Close c)"
  by (cases "c_done c") (simp_all add: Close_done Close_not_done)

lemma findAuthority_done: "c_done c \<Longrightarrow> findAuthority c n = (Inl ClientClosed, c)"
  by (simp add: findAuthority_def)

lemma SetMetadata_done: "c_done c \<Longrightarrow> SetMetadata f c m = (Some ClientClosed, c)"
  by (simp add: SetMetadata_def findAuthority_done)

lemma ToMetadata_Some:
  "marshal r = Inr b \<Longrightarrow>
     ToMetadata marshal (Some r) = (Some [''x-endpoint-load-metrics-bin'' \<mapsto> [b]], [])"
  by (simp add: ToMetadata_def toBytes_def ToLower_mdKey md_values_def)

lemma md_Get_Some: "md_Get (Some m) mdKey = (case m ''x-endpoint-load-metrics-bin'' of None \<Rightarrow> [] | Some vs \<Rightarrow> vs)"
  by (simp add: md_Get_def md_values_def ToLower_mdKey)

lemma securityConfigUpdateValidator_Some:
  "securityConfigUpdateValidator cfg (Some s) =
     (if provider_missing cfg (IdentityInstanceName s)
      then Some (Errorf identity_missing_fmt [IdentityInstanceName s])
      else if provider_missing cfg (RootInstanceName s)
      then Some (Errorf root_missing_fmt [RootInstanceName s])
      else None)"
  by (auto simp: securityConfigUpdateValidator_def provider_missing_def)

lemma securityConfigUpdateValidator_trace_result:
  "snd (securityConfigUpdateValidator_trace cfg sc) = securityConfigUpdateValidator cfg sc"
  by (simp add: securityConfigUpdateValidator_trace_def securityConfigUpdateValidator_def
      Let_def split: option.splits)

lemma securityConfigUpdateValidator_trace_root:
  "RootCheck (RootInstanceName s) \<in> set (fst (securityConfigUpdateValidator_trace cfg (Some s)))
     \<longleftrightarrow> RootInstanceName s \<noteq> [] \<and> \<not> provider_missing cfg (IdentityInstanceName s)"
  by (auto simp: securityConfigUpdateValidator_trace_def provider_missing_def Let_def)

lemma sample_missing:
  "provider_missing sample_config ''foo''" "provider_missing sample_config ''bar''"
  "\<not> provider_missing sample_config ''default''" "\<not> provider_missing sample_config []"
  by (simp_all add: provider_missing_def sample_config_def)

lemma SetMetadata_open_sample:
  "SetMetadata (\<lambda>a m. None) sample_client ()
     = (None, sample_client\<lparr>c_calls := [AuthoritySetMetadata 0 (), AuthorityWatchEndpoints 0 []]\<rparr>)"
  by (simp add: SetMetadata_def findAuthority_def ParseName_empty_def sample_client_def sample_config_def)

subsection \<open>Unknown identity providers are rejected\<close>

text \<open>
  Claim C1. For every security config whose identity-provider instance name is set and is
  not a key of the bootstrap certificate-provider table, the validator returns the error
  built by \<^verbatim>\<open>fmt.Errorf\<close> from the identity format string
  (\<^verbatim>\<open>identitiy certificate provider instance name %q missing in bootstrap configuration\<close>)
  with that instance name as its argument, and so do the update validator on a cluster
  update carrying that config and the filter-chain validator on a chain carrying it. For every security config whose two names are each unset
  or present in the table, both return no error.
\<close>

theorem unknown_identity_rejected:
  "(provider_missing cfg (IdentityInstanceName s) \<longrightarrow>
      securityConfigUpdateValidator cfg (Some s)
        = Some (Errorf identity_missing_fmt [IdentityInstanceName s]) \<and>
      updateValidator validate cfg (ClusterUpdate (Some s) :: ('fcs, 'o) update)
        = Some (Errorf identity_missing_fmt [IdentityInstanceName s]) \<and>
      filterChainUpdateValidator cfg (Some \<lparr>fc_SecurityCfg = Some s\<rparr>)
        = Some (Errorf identity_missing_fmt [IdentityInstanceName s])) \<and>
   (\<not> provider_missing cfg (IdentityInstanceName s) \<and>
    \<not> provider_missing cfg (RootInstanceName s) \<longrightarrow>
      securityConfigUpdateValidator cfg (Some s) = None \<and>
      updateValidator validate cfg (ClusterUpdate (Some s) :: ('fcs, 'o) update) = None \<and>
      filterChainUpdateValidator cfg (Some \<lparr>fc_SecurityCfg = Some s\<rparr>) = None)"
  by (simp add: securityConfigUpdateValidator_Some updateValidator_def
      filterChainUpdateValidator_def)

theorem unknown_identity_rejected_witness:
  "provider_missing sample_config ''foo'' \<and>
   securityConfigUpdateValidator sample_config
       (Some \<lparr>RootInstanceName = [], IdentityInstanceName = ''foo''\<rparr>)
     = Some (Errorf identity_missing_fmt [''foo'']) \<and>
   updateValidator Validate sample_config
       (ClusterUpdate (Some \<lparr>RootInstanceName = [], IdentityInstanceName = ''foo''\<rparr>) :: (FilterChain option list, unit) update)
     = Some (Errorf identity_missing_fmt [''foo'']) \<and>
   \<not> provider_missing sample_config ''default'' \<and> \<not> provider_missing sample_config [] \<and>
   securityConfigUpdateValidator sample_config
       (Some \<lparr>RootInstanceName = ''default'', IdentityInstanceName = []\<rparr>) = None \<and>
   updateValidator Validate sample_config
       (ClusterUpdate (Some \<lparr>RootInstanceName = ''default'', IdentityInstanceName = []\<rparr>) :: (FilterChain option list, unit) update) = None"
  using unknown_identity_rejected [of sample_config "\<lparr>RootInstanceName = [], IdentityInstanceName = ''foo''\<rparr>" "Validate :: FilterChain option list \<Rightarrow> _", where ?'o = unit]
    unknown_identity_rejected [of sample_config "\<lparr>RootInstanceName = ''default'', IdentityInstanceName = []\<rparr>" "Validate :: FilterChain option list \<Rightarrow> _", where ?'o = unit]
    sample_missing
  by simp

subsection \<open>The metadata round trip\<close>

text \<open>
  Claim C2. For every report \<open>r\<close> that is not \<^verbatim>\<open>nil\<close> and that \<^verbatim>\<open>proto.Marshal\<close>
  encodes without error to bytes that \<^verbatim>\<open>proto.Unmarshal\<close> decodes back to \<open>r\<close>,
  \<^verbatim>\<open>FromMetadata(ToMetadata(r))\<close> is \<open>r\<close>, and nothing is logged. For the \<^verbatim>\<open>nil\<close>
  report, \<^verbatim>\<open>ToMetadata\<close> returns the \<^verbatim>\<open>nil\<close> metadata, which holds no value under
  any key.
\<close>

theorem metadata_round_trip:
  "(marshal r = Inr b \<and> unmarshal b = Inr r \<longrightarrow>
      FromMetadata unmarshal (fst (ToMetadata marshal (Some r))) = (Some r, [])) \<and>
   ToMetadata marshal None = (None, []) \<and>
   md_Get (fst (ToMetadata marshal None)) k = []"
  by (simp add: ToMetadata_Some FromMetadata_def md_Get_Some fromBytes_def)
     (simp add: ToMetadata_def toBytes_def md_Get_def)

theorem metadata_round_trip_witness:
  "sample_marshal ''abc'' = Inr ''Rabc'' \<and> sample_unmarshal ''Rabc'' = Inr ''abc'' \<and>
   FromMetadata sample_unmarshal (fst (ToMetadata sample_marshal (Some ''abc''))) = (Some ''abc'', []) \<and>
   ToMetadata sample_marshal None = (None, [])"
proof -
  have m: "sample_marshal ''abc'' = Inr ''Rabc''" by (simp add: sample_marshal_def)
  have u: "sample_unmarshal ''Rabc'' = Inr ''abc''" by (simp add: sample_unmarshal_def)
  from m u metadata_round_trip [of sample_marshal "''abc''" "''Rabc''" sample_unmarshal]
  show ?thesis by simp
qed

subsection \<open>Validation stops at the first missing provider\<close>

text \<open>
  Claim C3, as the code has it. The identity-provider check runs first and validation
  returns at the first missing provider: the root-provider lookup is performed exactly
  when the root name is set and the identity name is not missing. Whenever the identity
  name or the root name is missing from the table, the validator returns a
  missing-provider error, for the identity name if that one is missing and for the root
  name otherwise, and the update validator returns the same error for a cluster update
  carrying the config.
\<close>

theorem missing_provider_fail_fast:
  "provider_missing cfg (IdentityInstanceName s) \<or> provider_missing cfg (RootInstanceName s) \<Longrightarrow>
     securityConfigUpdateValidator cfg (Some s) =
       Some (if provider_missing cfg (IdentityInstanceName s)
             then Errorf identity_missing_fmt [IdentityInstanceName s]
             else Errorf root_missing_fmt [RootInstanceName s]) \<and>
     updateValidator validate cfg (ClusterUpdate (Some s) :: ('fcs, 'o) update)
       = securityConfigUpdateValidator cfg (Some s) \<and>
     snd (securityConfigUpdateValidator_trace cfg (Some s)) = securityConfigUpdateValidator cfg (Some s) \<and>
     (RootCheck (RootInstanceName s) \<in> set (fst (securityConfigUpdateValidator_trace cfg (Some s)))
        \<longleftrightarrow> RootInstanceName s \<noteq> [] \<and> \<not> provider_missing cfg (IdentityInstanceName s))"
  by (auto simp: securityConfigUpdateValidator_Some updateValidator_def
      securityConfigUpdateValidator_trace_result securityConfigUpdateValidator_trace_root)

theorem missing_provider_fail_fast_witness:
  "(provider_missing sample_config [] \<or> provider_missing sample_config ''bar'') \<and>
   securityConfigUpdateValidator sample_config
       (Some \<lparr>RootInstanceName = ''bar'', IdentityInstanceName = []\<rparr>)
     = Some (Errorf root_missing_fmt [''bar'']) \<and>
   RootCheck ''bar'' \<in> set (fst (securityConfigUpdateValidator_trace sample_config
       (Some \<lparr>RootInstanceName = ''bar'', IdentityInstanceName = []\<rparr>)))"
  using missing_provider_fail_fast [of sample_config "\<lparr>RootInstanceName = ''bar'', IdentityInstanceName = []\<rparr>" "Validate :: FilterChain option list \<Rightarrow> _", where ?'o = unit]
    sample_missing
  by simp

text \<open>
  Claim C3 as the spec words it, that the root-provider check also runs when the identity
  check fails, does not hold: with both \<open>''foo''\<close> and \<open>''bar''\<close> missing from the table, the
  only lookup performed is the one for the identity name \<open>''foo''\<close>.
\<close>

theorem root_check_skipped_counterexample:
  "provider_missing sample_config ''foo'' \<and> provider_missing sample_config ''bar'' \<and>
   securityConfigUpdateValidator_trace sample_config
       (Some \<lparr>RootInstanceName = ''bar'', IdentityInstanceName = ''foo''\<rparr>)
     = ([IdentityCheck ''foo''], Some (Errorf identity_missing_fmt [''foo''])) \<and>
   RootCheck ''bar'' \<notin> set (fst (securityConfigUpdateValidator_trace sample_config
       (Some \<lparr>RootInstanceName = ''bar'', IdentityInstanceName = ''foo''\<rparr>)))"
  by (simp add: provider_missing_def securityConfigUpdateValidator_trace_def sample_config_def)

subsection \<open>Close is idempotent\<close>

text \<open>
  Claim C4. After \<^verbatim>\<open>Close\<close> the done flag is set; on a client whose done flag is set,
  \<^verbatim>\<open>Close\<close> changes nothing; so a second \<^verbatim>\<open>Close\<close> leaves the state of the first,
  and in particular makes no further call on any authority or on the logger.
\<close>

theorem Close_idempotent:
  "c_done (Close c) \<and> (c_done c \<longrightarrow> Close c = c) \<and> Close (Close c) = Close c \<and>
   c_calls (Close (Close c)) = c_calls (Close c)"
  by (simp add: c_done_Close Close_done)

theorem Close_idempotent_witness:
  "c_done (Close sample_client) \<and> Close (Close sample_client) = Close sample_client \<and>
   c_calls (Close (Close sample_client))
     = [AuthorityClose 0, AuthorityClose 1, AuthorityClose 2, LoggerInfof ''Shutdown'']"
  using Close_idempotent [of sample_client] Close_idempotent [of "Close sample_client"]
  by (simp add: Close_not_done sample_client_def)

subsection \<open>The first Close\<close>

text \<open>
  Claim C5. On a client whose done flag is not set, \<^verbatim>\<open>Close\<close> sets the flag, closes
  every authority of the active registry, empties the idle cache running the expiry
  callback of each of its entries, and logs the shutdown, in this order. So every active
  authority is closed by this call, and so is every idle authority whose callback closes
  it.
\<close>

theorem Close_first_call:
  "\<not> c_done c \<Longrightarrow>
     Close c = c\<lparr>c_done := True, c_idleAuthorities := [],
                 c_calls := c_calls c @ map (\<lambda>(key, a). AuthorityClose a) (c_authorities c)
                    @ map (\<lambda>(key, e). case callback e of CloseAuthority a \<Rightarrow> AuthorityClose a) (c_idleAuthorities c)
                    @ [LoggerInfof ''Shutdown'']\<rparr> \<and>
     (\<forall>(key, a) \<in> set (c_authorities c).
        AuthorityClose a \<in> set (drop (length (c_calls c)) (c_calls (Close c)))) \<and>
     (\<forall>(key, e) \<in> set (c_idleAuthorities c). callback e = CloseAuthority (item e) \<longrightarrow>
        AuthorityClose (item e) \<in> set (drop (length (c_calls c)) (c_calls (Close c))))"
  by (force simp: Close_not_done)

theorem Close_first_call_witness:
  "\<not> c_done sample_client \<and>
   Close sample_client = sample_client\<lparr>c_done := True, c_idleAuthorities := [],
     c_calls := [AuthorityClose 0, AuthorityClose 1, AuthorityClose 2, LoggerInfof ''Shutdown'']\<rparr> \<and>
   AuthorityClose 1 \<in> set (drop (length (c_calls sample_client)) (c_calls (Close sample_client))) \<and>
   AuthorityClose 2 \<in> set (drop (length (c_calls sample_client)) (c_calls (Close sample_client)))"
proof -
  have nd: "\<not> c_done sample_client" by (simp add: sample_client_def)
  have a: "(''other.example:443'', 1) \<in> set (c_authorities sample_client)"
    by (simp add: sample_client_def)
  have i: "(''idle.example:443'', \<lparr>item = 2, callback = CloseAuthority 2\<rparr>) \<in> set (c_idleAuthorities sample_client)"
    by (simp add: sample_client_def)
  note h = Close_first_call [OF nd]
  from h have 1: "Close sample_client = sample_client\<lparr>c_done := True, c_idleAuthorities := [],
     c_calls := [AuthorityClose 0, AuthorityClose 1, AuthorityClose 2, LoggerInfof ''Shutdown'']\<rparr>"
    by (simp add: sample_client_def)
  from h a have 2: "AuthorityClose 1 \<in> set (drop (length (c_calls sample_client)) (c_calls (Close sample_client)))"
    by blast
  from h i have 3: "AuthorityClose 2 \<in> set (drop (length (c_calls sample_client)) (c_calls (Close sample_client)))"
    by fastforce
  from nd 1 2 3 show ?thesis by blast
qed

subsection \<open>Codec failures are absorbed\<close>

text \<open>
  Claim C6. The codec functions return a value or the absent value, never an error: their
  result types have no error component. When \<^verbatim>\<open>proto.Marshal\<close> fails, \<^verbatim>\<open>toBytes\<close> and
  \<^verbatim>\<open>ToMetadata\<close> log one warning and return \<^verbatim>\<open>nil\<close>; when \<^verbatim>\<open>proto.Unmarshal\<close>
  fails, \<^verbatim>\<open>fromBytes\<close> logs one warning and returns \<^verbatim>\<open>nil\<close>, and so does
  \<^verbatim>\<open>FromMetadata\<close> when the first value under the key is such input.
\<close>

theorem codec_errors_absorbed:
  "(marshal r = Inl err \<longrightarrow>
      toBytes marshal (Some r) = (None, [Warnf ''orca: failed to marshal load report: %v'' err]) \<and>
      ToMetadata marshal (Some r) = (None, [Warnf ''orca: failed to marshal load report: %v'' err])) \<and>
   (unmarshal b = Inl err' \<longrightarrow>
      fromBytes unmarshal b = (None, [Warnf ''orca: failed to unmarshal load report: %v'' err']) \<and>
      (md_Get md mdKey = b # vs \<longrightarrow>
         FromMetadata unmarshal md = (None, [Warnf ''orca: failed to unmarshal load report: %v'' err'])))"
  by (simp add: toBytes_def ToMetadata_def fromBytes_def FromMetadata_def)

theorem codec_errors_absorbed_witness:
  "sample_marshal [] = Inl MarshalError \<and>
   toBytes sample_marshal (Some []) = (None, [Warnf ''orca: failed to marshal load report: %v'' MarshalError]) \<and>
   ToMetadata sample_marshal (Some []) = (None, [Warnf ''orca: failed to marshal load report: %v'' MarshalError]) \<and>
   sample_unmarshal ''xyz'' = Inl UnmarshalError \<and>
   fromBytes sample_unmarshal ''xyz'' = (None, [Warnf ''orca: failed to unmarshal load report: %v'' UnmarshalError]) \<and>
   md_Get (Some [''x-endpoint-load-metrics-bin'' \<mapsto> [''xyz'']]) mdKey = [''xyz''] \<and>
   FromMetadata sample_unmarshal (Some [''x-endpoint-load-metrics-bin'' \<mapsto> [''xyz'']])
     = (None, [Warnf ''orca: failed to unmarshal load report: %v'' UnmarshalError])"
proof -
  have m: "sample_marshal [] = Inl MarshalError" by (simp add: sample_marshal_def)
  have u: "sample_unmarshal ''xyz'' = Inl UnmarshalError" by (simp add: sample_unmarshal_def)
  have g: "md_Get (Some [''x-endpoint-load-metrics-bin'' \<mapsto> [''xyz'']]) mdKey = [''xyz'']"
    by (simp add: md_Get_Some)
  from m u g codec_errors_absorbed [of sample_marshal "[]" MarshalError sample_unmarshal "''xyz''" UnmarshalError
      "Some [''x-endpoint-load-metrics-bin'' \<mapsto> [''xyz'']]" "[]"]
  show ?thesis by simp
qed

subsection \<open>The metadata entry\<close>

text \<open>
  Claim C7. For a report that is not \<^verbatim>\<open>nil\<close> and encodes to \<open>b\<close>, \<^verbatim>\<open>ToMetadata\<close>
  returns metadata with exactly one key holding exactly one value, \<open>b\<close>, which
  \<^verbatim>\<open>Get\<close> returns for the key \<^verbatim>\<open>X-Endpoint-Load-Metrics-Bin\<close>; the metadata library
  keeps keys in lower case, so the key stored is \<^verbatim>\<open>x-endpoint-load-metrics-bin\<close>.
  \<^verbatim>\<open>FromMetadata\<close> returns the absent value, logging nothing, for \<^verbatim>\<open>nil\<close> metadata and
  for metadata without that key (or with no value under it), and otherwise is
  \<^verbatim>\<open>fromBytes\<close> of the first value under the key.
\<close>

theorem metadata_single_entry:
  "(marshal r = Inr b \<longrightarrow>
      ToMetadata marshal (Some r) = (Some [''x-endpoint-load-metrics-bin'' \<mapsto> [b]], []) \<and>
      md_Get (fst (ToMetadata marshal (Some r))) mdKey = [b]) \<and>
   FromMetadata unmarshal None = (None, []) \<and>
   (m ''x-endpoint-load-metrics-bin'' = None \<longrightarrow> FromMetadata unmarshal (Some m) = (None, [])) \<and>
   (md_Get md mdKey = [] \<longrightarrow> FromMetadata unmarshal md = (None, [])) \<and>
   (m ''x-endpoint-load-metrics-bin'' = Some (v # vs) \<longrightarrow>
      FromMetadata unmarshal (Some m) = fromBytes unmarshal v) \<and>
   (md_Get md mdKey = v # vs \<longrightarrow> FromMetadata unmarshal md = fromBytes unmarshal v)"
  by (simp add: ToMetadata_Some FromMetadata_def md_Get_Some) (simp add: md_Get_def)

theorem metadata_single_entry_witness:
  "sample_marshal ''abc'' = Inr ''Rabc'' \<and>
   ToMetadata sample_marshal (Some ''abc'') = (Some [''x-endpoint-load-metrics-bin'' \<mapsto> [''Rabc'']], []) \<and>
   FromMetadata sample_unmarshal (Some [''other-key'' \<mapsto> [''Rabc'']]) = (None, []) \<and>
   FromMetadata sample_unmarshal (Some [''x-endpoint-load-metrics-bin'' \<mapsto> [''Rabc'', ''Rdef'']])
     = fromBytes sample_unmarshal ''Rabc''"
proof -
  have m: "sample_marshal ''abc'' = Inr ''Rabc''" by (simp add: sample_marshal_def)
  from m metadata_single_entry [of sample_marshal "''abc''" "''Rabc''" sample_unmarshal "[''other-key'' \<mapsto> [''Rabc'']]"]
    metadata_single_entry [of sample_marshal "''abc''" "''Rabc''" sample_unmarshal
       "[''x-endpoint-load-metrics-bin'' \<mapsto> [''Rabc'', ''Rdef'']]" _ "''Rabc''" "[''Rdef'']"]
  show ?thesis by simp
qed

subsection \<open>Updates that pass unconditionally\<close>

text \<open>
  Claim C8. The update validator returns no error for a listener update without inbound
  listener configuration or without a filter-chain set, for a cluster update without
  security config, and for an update of any other kind; the filter-chain validator
  returns no error for a \<^verbatim>\<open>nil\<close> filter chain.
\<close>

theorem updateValidator_pass:
  "updateValidator validate cfg (ListenerUpdate None :: ('fcs, 'o) update) = None \<and>
   (FilterChains l = None \<longrightarrow>
      updateValidator validate cfg (ListenerUpdate (Some l) :: ('fcs, 'o) update) = None) \<and>
   updateValidator validate cfg (ClusterUpdate None :: ('fcs, 'o) update) = None \<and>
   updateValidator validate cfg (OtherUpdate x :: ('fcs, 'o) update) = None \<and>
   filterChainUpdateValidator cfg None = None"
  by (simp add: updateValidator_def securityConfigUpdateValidator_def filterChainUpdateValidator_def)

theorem updateValidator_pass_witness:
  "FilterChains \<lparr>FilterChains = None :: FilterChain option list option\<rparr> = None \<and>
   updateValidator Validate sample_config (ListenerUpdate None :: (FilterChain option list, string) update) = None \<and>
   updateValidator Validate sample_config (ListenerUpdate (Some \<lparr>FilterChains = None\<rparr>) :: (FilterChain option list, string) update) = None \<and>
   updateValidator Validate sample_config (ClusterUpdate None :: (FilterChain option list, string) update) = None \<and>
   updateValidator Validate sample_config (OtherUpdate ''EndpointsUpdate'' :: (FilterChain option list, string) update) = None"
  using updateValidator_pass [of Validate sample_config "\<lparr>FilterChains = None\<rparr>" "''EndpointsUpdate''"]
  by simp

subsection \<open>A closed client rejects requests\<close>

text \<open>
  Claim C9. On a client whose done flag is set, and so on every client after \<^verbatim>\<open>Close\<close>,
  authority resolution fails with the client-closed error for every resource name, and
  \<^verbatim>\<open>SetMetadata\<close> returns that error, for every metadata value and every authority
  behaviour, leaving the client as it was: no authority is called.
\<close>

theorem closed_client_rejects:
  "(c_done c \<longrightarrow> findAuthority c n = (Inl ClientClosed, c) \<and>
                  SetMetadata a_SetMetadata c m = (Some ClientClosed, c)) \<and>
   findAuthority (Close c) n = (Inl ClientClosed, Close c) \<and>
   SetMetadata a_SetMetadata (Close c) m = (Some ClientClosed, Close c)"
  by (simp add: findAuthority_done SetMetadata_done c_done_Close)

theorem closed_client_rejects_witness:
  "c_done (sample_client\<lparr>c_done := True\<rparr>) \<and>
   SetMetadata (\<lambda>a m. None) (sample_client\<lparr>c_done := True\<rparr>) ()
     = (Some ClientClosed, sample_client\<lparr>c_done := True\<rparr>) \<and>
   findAuthority (Close sample_client) ParseName_empty = (Inl ClientClosed, Close sample_client) \<and>
   SetMetadata (\<lambda>a m. None) (Close sample_client) () = (Some ClientClosed, Close sample_client)"
  using closed_client_rejects [of "sample_client\<lparr>c_done := True\<rparr>" ParseName_empty "\<lambda>a m. None" "()"]
    closed_client_rejects [of sample_client ParseName_empty "\<lambda>a m. None" "()"]
  by simp

subsection \<open>Options are set one field at a time\<close>

text \<open>
  Claim C10. For every \<^verbatim>\<open>Options\<close> value and every argument, \<^verbatim>\<open>WithGroup\<close> sets
  \<^verbatim>\<open>Group\<close> and leaves \<^verbatim>\<open>Timeout\<close> unchanged, and \<^verbatim>\<open>WithTimeout\<close> sets
  \<^verbatim>\<open>Timeout\<close> and leaves \<^verbatim>\<open>Group\<close> unchanged.
\<close>

theorem options_frame:
  "Group (WithGroup g opt) = g \<and> Timeout (WithGroup g opt) = Timeout opt \<and>
   Timeout (WithTimeout t opt) = t \<and> Group (WithTimeout t opt) = Group opt"
  by (simp add: WithGroup_def WithTimeout_def)

theorem options_frame_witness:
  "Group (WithGroup ''dubbo'' \<lparr>Group = ''g0'', Timeout = 10\<rparr>) = ''dubbo'' \<and>
   Timeout (WithGroup ''dubbo'' \<lparr>Group = ''g0'', Timeout = 10\<rparr>) = 10 \<and>
   Timeout (WithTimeout 5 \<lparr>Group = ''g0'', Timeout = 10\<rparr>) = 5 \<and>
   Group (WithTimeout 5 \<lparr>Group = ''g0'', Timeout = 10\<rparr>) = ''g0''"
  using options_frame [of "''dubbo''" "\<lparr>Group = ''g0'', Timeout = 10\<rparr>" 5] by simp

end
